theory Spec2Isabelle
  imports Complex_Main "HOL-Library.AList" "HOL-Library.Word"
begin

section \<open>The spectral calibration processor\<close>

text \<open>
  A shallow embedding of \<^verbatim>\<open>src/python/spectral_processor.py\<close> (class
  \<^verbatim>\<open>SpectralProcessor\<close>). Conventions:

  \<^item> the processor object is a record; every method takes the record and returns the
    updated record next to its result;
  \<^item> a Python exception is a value \<open>Inl e\<close> of a sum type;
  \<^item> a Python dictionary is an association list in insertion order, updated with
    \<open>AList.update\<close> (an existing key keeps its place, a new key goes last);
  \<^item> Python integers are \<open>int\<close>; floating-point numbers are idealised as \<open>real\<close>,
    and a float that may be NaN (a mean over no pixels) is a \<open>real option\<close> with
    \<open>None\<close> for NaN;
  \<^item> what OpenCV, NumPy and SciPy compute from the pixels (decoding, masks, contours,
    means, least-squares fits) is not part of the repository: the decoded image is a
    record of those observations, and the fitting routines are parameters.
\<close>

subsection \<open>Exceptions and string conversion\<close>

datatype py_error =
    ValueError string
  | KeyError string
  | ZeroDivisionError
  | NoImage
  | LibraryError string

text \<open>
  \<open>KeyError k\<close> carries the \<^verbatim>\<open>repr\<close> of the missing key; \<open>NoImage\<close> stands for the
  exception Python raises when a method dereferences \<^verbatim>\<open>self.image\<close> while it is
  still \<^verbatim>\<open>None\<close>; \<open>LibraryError m\<close> is an exception with message \<open>m\<close> raised inside
  \<^verbatim>\<open>np.polyfit\<close> or \<^verbatim>\<open>UnivariateSpline\<close>. \<open>str_of_error\<close> is Python's \<^verbatim>\<open>str(e)\<close>;
  the only place that formats an exception is the handler around the curve fit in
  \<^verbatim>\<open>process\<close>, which \<open>NoImage\<close> never reaches, so its text is left empty.
\<close>

fun str_of_error :: "py_error \<Rightarrow> string" where
  "str_of_error (ValueError m) = m"
| "str_of_error (KeyError k) = k"
| "str_of_error ZeroDivisionError = ''float division by zero''"
| "str_of_error NoImage = []"
| "str_of_error (LibraryError m) = m"

text \<open>\<^verbatim>\<open>repr\<close> of a string without quotes, backslashes or control characters.\<close>

definition py_repr :: "string \<Rightarrow> string" where
  "py_repr k = [CHR 0x27] @ k @ [CHR 0x27]"

fun str_nat :: "nat \<Rightarrow> string" where
  "str_nat n =
     (if n < 10 then [''0123456789'' ! n]
      else str_nat (n div 10) @ [''0123456789'' ! (n mod 10)])"

definition str_int :: "int \<Rightarrow> string" where
  "str_int i = (if i < 0 then ''-'' @ str_nat (nat (- i)) else str_nat (nat i))"

text \<open>Python's \<^verbatim>\<open>int(x)\<close> on a float truncates towards zero.\<close>

definition py_int :: "real \<Rightarrow> int" where
  "py_int x = (if 0 \<le> x then \<lfloor>x\<rfloor> else \<lceil>x\<rceil>)"

definition truediv :: "real \<Rightarrow> real \<Rightarrow> py_error + real" where
  "truediv a b = (if b = 0 then Inl ZeroDivisionError else Inr (a / b))"

text \<open>A comprehension whose body may raise: the first exception ends it.\<close>

fun map_err :: "('a \<Rightarrow> py_error + 'b) \<Rightarrow> 'a list \<Rightarrow> py_error + 'b list" where
  "map_err f [] = Inr []"
| "map_err f (x # xs) =
     (case f x of
        Inl e \<Rightarrow> Inl e
      | Inr y \<Rightarrow> (case map_err f xs of Inl e \<Rightarrow> Inl e | Inr ys \<Rightarrow> Inr (y # ys)))"

subsection \<open>Class constants\<close>

definition COLOR_WAVELENGTHS :: "(string \<times> int) list" where
  "COLOR_WAVELENGTHS =
     [(''red'', 625), (''yellow'', 580), (''green'', 530),
      (''cyan'', 490), (''blue'', 460), (''magenta'', 570)]"

definition HSV_RANGES :: "(string \<times> (nat \<times> nat \<times> nat) list) list" where
  "HSV_RANGES =
     [(''red'', [(0, 100, 100), (10, 255, 255), (170, 100, 100), (180, 255, 255)]),
      (''yellow'', [(20, 100, 100), (30, 255, 255)]),
      (''green'', [(40, 50, 50), (80, 255, 255)]),
      (''cyan'', [(80, 50, 50), (100, 255, 255)]),
      (''blue'', [(100, 100, 100), (130, 255, 255)]),
      (''magenta'', [(140, 50, 100), (170, 255, 255)])]"

subsection \<open>Data\<close>

type_synonym npfloat = "real option"

record 'a rgb =
  rgb_r :: 'a
  rgb_g :: 'a
  rgb_b :: 'a

record 'a intensity = "'a rgb" +
  color :: string

record rect =
  rect_x :: int
  rect_y :: int
  rect_width :: int
  rect_height :: int

record region =
  wavelength :: int
  region_rgb :: "int rgb"
  region_bgr :: "int rgb"
  center :: "int \<times> int"
  area :: int
  bbox :: rect

record corner =
  corner_rgb :: "npfloat rgb"
  corner_bgr :: "npfloat rgb"
  position :: rect

text \<open>
  What OpenCV reports about a decoded image. \<open>hsv_mask\<close> is the binary mask of
  \<^verbatim>\<open>_create_color_mask\<close> for a list of HSV bounds (\<^verbatim>\<open>inRange\<close>, the union of the two
  red bands, then the morphological close and open); a mask is seen through
  \<^verbatim>\<open>countNonZero\<close> and \<^verbatim>\<open>findContours\<close>; a contour through \<^verbatim>\<open>contourArea\<close>,
  \<^verbatim>\<open>boundingRect\<close> and the mean BGR colour of the image under the filled contour;
  \<open>slice_mean\<close> is \<^verbatim>\<open>image[y:y+h, x:x+w].mean(axis=(0, 1))\<close> in BGR order, NaN
  when the slice holds no pixel.
\<close>

record contour =
  contourArea :: real
  boundingRect :: rect
  mean_bgr :: "real \<times> real \<times> real"

record mask =
  countNonZero :: nat
  contours :: "contour list"

record cv_image =
  shape :: "int \<times> int"
  hsv_mask :: "(nat \<times> nat \<times> nat) list \<Rightarrow> mask"
  slice_mean :: "rect \<Rightarrow> npfloat \<times> npfloat \<times> npfloat"

record series = "real list rgb" +
  wavelengths :: "int list"

record curves =
  polynomial :: "real list rgb"
  data_points :: series
  raw_normalized :: series
  final_corrected :: series
  reference_values :: "(int \<times> real rgb) list"

record processor =
  image_data :: "8 word list"
  loaded_image :: "cv_image option"
  height :: int
  width :: int
  color_regions :: "(string \<times> region) list"
  black_regions :: "(string \<times> corner) list"
  raw_intensities :: "(int \<times> int intensity) list"
  corrected_intensities :: "(int \<times> real intensity) list"
  correction_curves :: "curves option"

text \<open>
  \<open>loaded_image\<close> stands for \<^verbatim>\<open>self.image\<close> together with \<^verbatim>\<open>self.hsv_image\<close>;
  \<open>correction_curves = None\<close> is the empty dictionary of \<^verbatim>\<open>__init__\<close>, which has no
  key \<^verbatim>\<open>'polynomial'\<close>.
\<close>

definition init :: "8 word list \<Rightarrow> processor" where
  "init data =
     \<lparr>image_data = data, loaded_image = None, height = 0, width = 0,
      color_regions = [], black_regions = [], raw_intensities = [],
      corrected_intensities = [], correction_curves = None\<rparr>"

subsection \<open>Loading and region detection\<close>

text \<open>
  \<open>load_image\<close>: \<open>imdecode\<close> is \<^verbatim>\<open>cv2.imdecode\<close> followed by the colour-space
  conversion; it yields \<open>None\<close> when the bytes do not decode (or the library raises,
  which the method catches), and the method then returns \<^verbatim>\<open>False\<close>.
\<close>

definition load_image ::
  "(8 word list \<Rightarrow> cv_image option) \<Rightarrow> processor \<Rightarrow> bool \<times> processor" where
  "load_image imdecode s =
     (case imdecode (image_data s) of
        None \<Rightarrow> (False, s\<lparr>loaded_image := None\<rparr>)
      | Some img \<Rightarrow>
          (True, s\<lparr>loaded_image := Some img,
                   height := fst (shape img), width := snd (shape img)\<rparr>))"

definition create_color_mask :: "cv_image \<Rightarrow> string \<Rightarrow> mask option" where
  "create_color_mask img color_name =
     (case map_of HSV_RANGES color_name of
        None \<Rightarrow> None
      | Some ranges \<Rightarrow> Some (hsv_mask img ranges))"

text \<open>
  \<^verbatim>\<open>max(contours, key=cv2.contourArea)\<close> over a non-empty list: the first contour of
  largest area.
\<close>

fun largest_from :: "contour \<Rightarrow> contour list \<Rightarrow> contour" where
  "largest_from c [] = c"
| "largest_from c (d # ds) =
     largest_from (if contourArea c < contourArea d then d else c) ds"

text \<open>
  The body of the loop of \<^verbatim>\<open>extract_color_regions\<close> for one colour: \<open>None\<close> where the
  source says \<^verbatim>\<open>continue\<close>, otherwise the entry stored in \<^verbatim>\<open>self.color_regions\<close>.
\<close>

definition detect_region :: "cv_image \<Rightarrow> string \<Rightarrow> int \<Rightarrow> region option" where
  "detect_region img color_name wl =
     (case create_color_mask img color_name of
        None \<Rightarrow> None
      | Some m \<Rightarrow>
          if countNonZero m < 100 then None
          else
            (case contours m of
               [] \<Rightarrow> None
             | c # cs \<Rightarrow>
                 (let largest_contour = largest_from c cs;
                      a = contourArea largest_contour
                  in if a < 100 then None
                     else
                       (let bb = boundingRect largest_contour;
                            center_x = rect_x bb + rect_width bb div 2;
                            center_y = rect_y bb + rect_height bb div 2;
                            avg = mean_bgr largest_contour;
                            b = fst avg; g = fst (snd avg); r = snd (snd avg);
                            px = \<lparr>rgb_r = py_int r, rgb_g = py_int g, rgb_b = py_int b\<rparr>
                        in Some \<lparr>wavelength = wl, region_rgb = px, region_bgr = px,
                                 center = (center_x, center_y), area = py_int a,
                                 bbox = bb\<rparr>))))"

definition store_region :: "cv_image \<Rightarrow> string \<times> int \<Rightarrow> processor \<Rightarrow> processor" where
  "store_region img item s =
     (case detect_region img (fst item) (snd item) of
        None \<Rightarrow> s
      | Some reg \<Rightarrow> s\<lparr>color_regions := AList.update (fst item) reg (color_regions s)\<rparr>)"

definition extract_color_regions :: "processor \<Rightarrow> py_error + bool \<times> processor" where
  "extract_color_regions s =
     (case loaded_image s of
        None \<Rightarrow> Inl NoImage
      | Some img \<Rightarrow>
          (let s' = fold (store_region img) COLOR_WAVELENGTHS s;
               num_colors = length (color_regions s')
           in Inr (4 \<le> num_colors, s')))"

subsection \<open>Corner sampling and shadow correction\<close>

definition corner_rects :: "processor \<Rightarrow> (string \<times> rect) list" where
  "corner_rects s =
     (let corner_size_w = width s div 10;
          corner_size_h = height s div 10
      in [(''top_left'',
            \<lparr>rect_x = 0, rect_y = 0,
             rect_width = corner_size_w, rect_height = corner_size_h\<rparr>),
          (''top_right'',
            \<lparr>rect_x = width s - corner_size_w, rect_y = 0,
             rect_width = corner_size_w, rect_height = corner_size_h\<rparr>),
          (''bottom_left'',
            \<lparr>rect_x = 0, rect_y = height s - corner_size_h,
             rect_width = corner_size_w, rect_height = corner_size_h\<rparr>),
          (''bottom_right'',
            \<lparr>rect_x = width s - corner_size_w, rect_y = height s - corner_size_h,
             rect_width = corner_size_w, rect_height = corner_size_h\<rparr>)])"

definition store_corner :: "cv_image \<Rightarrow> string \<times> rect \<Rightarrow> processor \<Rightarrow> processor" where
  "store_corner img item s =
     (let avg = slice_mean img (snd item);
          b = fst avg; g = fst (snd avg); r = snd (snd avg);
          px = \<lparr>rgb_r = r, rgb_g = g, rgb_b = b\<rparr>
      in s\<lparr>black_regions :=
             AList.update (fst item)
               \<lparr>corner_rgb = px, corner_bgr = px, position = snd item\<rparr>
               (black_regions s)\<rparr>)"

definition extract_black_corners :: "processor \<Rightarrow> py_error + bool \<times> processor" where
  "extract_black_corners s =
     (case loaded_image s of
        None \<Rightarrow> Inl NoImage
      | Some img \<Rightarrow> Inr (True, fold (store_corner img) (corner_rects s) s))"

text \<open>
  \<^verbatim>\<open>np.mean\<close> of a list of floats: NaN (with a warning, not an exception) for the
  empty list and whenever an element is NaN.
\<close>

definition np_mean :: "npfloat list \<Rightarrow> npfloat" where
  "np_mean xs =
     (case those xs of
        None \<Rightarrow> None
      | Some [] \<Rightarrow> None
      | Some (y # ys) \<Rightarrow> Some (sum_list (y # ys) / real (length (y # ys))))"

definition calculate_baseline :: "processor \<Rightarrow> npfloat \<times> npfloat \<times> npfloat" where
  "calculate_baseline s =
     (let r_values = map (\<lambda>c. rgb_r (corner_rgb c)) (map snd (black_regions s));
          g_values = map (\<lambda>c. rgb_g (corner_rgb c)) (map snd (black_regions s));
          b_values = map (\<lambda>c. rgb_b (corner_rgb c)) (map snd (black_regions s))
      in (np_mean r_values, np_mean g_values, np_mean b_values))"

text \<open>
  \<^verbatim>\<open>max(0, v - baseline)\<close>: Python's \<^verbatim>\<open>max\<close> keeps its first argument unless the
  second compares greater, so a NaN difference gives \<open>0\<close>.
\<close>

definition max0_minus :: "int \<Rightarrow> npfloat \<Rightarrow> real" where
  "max0_minus v baseline =
     (case baseline of
        None \<Rightarrow> 0
      | Some bl \<Rightarrow> if 0 < real_of_int v - bl then real_of_int v - bl else 0)"

definition shadow_step ::
  "npfloat \<times> npfloat \<times> npfloat \<Rightarrow> string \<times> region \<Rightarrow> processor \<Rightarrow> processor" where
  "shadow_step baseline item s =
     (let color_name = fst item;
          wl = wavelength (snd item);
          px = region_rgb (snd item);
          s1 = s\<lparr>raw_intensities :=
                  AList.update wl
                    \<lparr>rgb_r = rgb_r px, rgb_g = rgb_g px, rgb_b = rgb_b px,
                     color = color_name\<rparr>
                    (raw_intensities s)\<rparr>;
          corrected =
            \<lparr>rgb_r = max0_minus (rgb_r px) (fst baseline),
             rgb_g = max0_minus (rgb_g px) (fst (snd baseline)),
             rgb_b = max0_minus (rgb_b px) (snd (snd baseline)),
             color = color_name\<rparr>
      in s1\<lparr>corrected_intensities :=
              AList.update wl corrected (corrected_intensities s1)\<rparr>)"

definition perform_shadow_correction ::
  "processor \<Rightarrow> py_error + (int \<times> real intensity) list \<times> processor" where
  "perform_shadow_correction s =
     (let s' = fold (shadow_step (calculate_baseline s)) (color_regions s) s
      in Inr (corrected_intensities s', s'))"

subsection \<open>Curve fitting\<close>

text \<open>
  The numerical routines the fitter calls, and the clock and decoder \<^verbatim>\<open>process\<close>
  uses, are parameters: \<open>polyfit x y deg\<close> is \<^verbatim>\<open>np.polyfit(x, y, deg=deg)\<close> with the
  coefficients as a list (highest power first), \<open>UnivariateSpline x y\<close> is the
  constructor call with \<^verbatim>\<open>s=0.1, k=3\<close> (the spline object is never used afterwards),
  \<open>now\<close> is \<^verbatim>\<open>datetime.now().isoformat()\<close>. Each is a function of its arguments.
\<close>

record env =
  imdecode :: "8 word list \<Rightarrow> cv_image option"
  polyfit :: "real list \<Rightarrow> real list \<Rightarrow> nat \<Rightarrow> py_error + real list"
  UnivariateSpline :: "real list \<Rightarrow> real list \<Rightarrow> py_error + unit"
  now :: string

text \<open>
  The reference values generated when no reference data is given (the body of the
  loop over the wavelengths, with its three \<^verbatim>\<open>if\<close>/\<^verbatim>\<open>elif\<close> chains in the source's
  order).
\<close>

definition builtin_reference :: "int \<Rightarrow> real rgb" where
  "builtin_reference wl =
     (let r_ref = (if 580 \<le> wl then 1
                   else if 530 \<le> wl then 0.3
                   else if 490 \<le> wl then 0.1
                   else 0.2);
          g_ref = (if wl = 530 then 1
                   else if wl \<in> set [490, 570, 580] then 0.6
                   else if wl = 625 then 0.2
                   else 0.3);
          b_ref = (if wl \<le> 490 then 1
                   else if wl = 530 then 0.4
                   else if wl \<in> set [570, 580] then 0.3
                   else 0.1)
      in \<lparr>rgb_r = r_ref, rgb_g = g_ref, rgb_b = b_ref\<rparr>)"

text \<open>
  \<^verbatim>\<open>if reference_data:\<close> is Python truthiness: \<^verbatim>\<open>None\<close> and the empty dictionary
  both take the \<^verbatim>\<open>else\<close> branch, which builds the table from \<open>builtin_reference\<close>.
\<close>

definition reference_table ::
  "(int \<times> real rgb) list option \<Rightarrow> int list \<Rightarrow> (int \<times> real rgb) list" where
  "reference_table reference_data wls =
     (case reference_data of
        None \<Rightarrow> fold (\<lambda>wl rd. AList.update wl (builtin_reference wl) rd) wls []
      | Some [] \<Rightarrow> fold (\<lambda>wl rd. AList.update wl (builtin_reference wl) rd) wls []
      | Some (e # es) \<Rightarrow> e # es)"

definition py_max :: "real list \<Rightarrow> py_error + real" where
  "py_max xs =
     (case xs of
        [] \<Rightarrow> Inl (ValueError ''max() arg is an empty sequence'')
      | y # ys \<Rightarrow> Inr (fold (\<lambda>x m. if m < x then x else m) ys y))"

text \<open>
  One channel of the normalisation: \<^verbatim>\<open>max_r = max(r_intensities) if
  max(r_intensities) > 0 else 1\<close> and \<^verbatim>\<open>[r / max_r for r in r_intensities]\<close>.
\<close>

definition normalize_channel :: "real list \<Rightarrow> py_error + real list" where
  "normalize_channel xs =
     (case py_max xs of
        Inl e \<Rightarrow> Inl e
      | Inr m \<Rightarrow>
          (let max_x = (if 0 < m then m else 1)
           in map_err (\<lambda>x. truediv x max_x) xs))"

definition MIN_THRESHOLD :: real where
  "MIN_THRESHOLD = 0.01"

text \<open>
  One correction factor: \<^verbatim>\<open>ref / max(normalized, MIN_THRESHOLD)\<close>, then
  \<^verbatim>\<open>max(0.1, min(10.0, corr))\<close>.
\<close>

definition correction_factor :: "real \<Rightarrow> real \<Rightarrow> py_error + real" where
  "correction_factor ref_value normalized =
     (case truediv ref_value (max normalized MIN_THRESHOLD) of
        Inl e \<Rightarrow> Inl e
      | Inr corr \<Rightarrow> Inr (max 0.1 (min 10 corr)))"

definition reference_get :: "(int \<times> real rgb) list \<Rightarrow> int \<Rightarrow> real rgb" where
  "reference_get reference_data wl =
     (case map_of reference_data wl of
        None \<Rightarrow> \<lparr>rgb_r = 1, rgb_g = 1, rgb_b = 1\<rparr>
      | Some v \<Rightarrow> v)"

text \<open>
  The body of the loop over \<^verbatim>\<open>zip(wavelengths, r_normalized, g_normalized,
  b_normalized)\<close>: the three factors appended in that iteration.
\<close>

definition correction_step ::
  "(int \<times> real rgb) list \<Rightarrow> int \<times> real \<times> real \<times> real \<Rightarrow> py_error + real rgb" where
  "correction_step reference_data item =
     (let wl = fst item;
          r_norm = fst (snd item);
          g_norm = fst (snd (snd item));
          b_norm = snd (snd (snd item));
          ref = reference_get reference_data wl
      in case correction_factor (rgb_r ref) r_norm of
           Inl e \<Rightarrow> Inl e
         | Inr r_corr \<Rightarrow>
             (case correction_factor (rgb_g ref) g_norm of
                Inl e \<Rightarrow> Inl e
              | Inr g_corr \<Rightarrow>
                  (case correction_factor (rgb_b ref) b_norm of
                     Inl e \<Rightarrow> Inl e
                   | Inr b_corr \<Rightarrow>
                       Inr \<lparr>rgb_r = r_corr, rgb_g = g_corr, rgb_b = b_corr\<rparr>)))"

text \<open>
  The \<^verbatim>\<open>try\<close> block: three polynomial fits of degree 3, then three spline fits; the
  handler re-raises what it caught.
\<close>

definition fit_all ::
  "env \<Rightarrow> real list \<Rightarrow> real list rgb \<Rightarrow> py_error + real list rgb" where
  "fit_all lib xs corrections =
     (case polyfit lib xs (rgb_r corrections) 3 of
        Inl e \<Rightarrow> Inl e
      | Inr r_poly \<Rightarrow>
     (case polyfit lib xs (rgb_g corrections) 3 of
        Inl e \<Rightarrow> Inl e
      | Inr g_poly \<Rightarrow>
     (case polyfit lib xs (rgb_b corrections) 3 of
        Inl e \<Rightarrow> Inl e
      | Inr b_poly \<Rightarrow>
     (case UnivariateSpline lib xs (rgb_r corrections) of
        Inl e \<Rightarrow> Inl e
      | Inr r_spline \<Rightarrow>
     (case UnivariateSpline lib xs (rgb_g corrections) of
        Inl e \<Rightarrow> Inl e
      | Inr g_spline \<Rightarrow>
     (case UnivariateSpline lib xs (rgb_b corrections) of
        Inl e \<Rightarrow> Inl e
      | Inr b_spline \<Rightarrow>
          Inr \<lparr>rgb_r = r_poly, rgb_g = g_poly, rgb_b = b_poly\<rparr>))))))"

definition lookup_intensities ::
  "(int \<times> real intensity) list \<Rightarrow> (real intensity \<Rightarrow> real) \<Rightarrow> int list
     \<Rightarrow> py_error + real list" where
  "lookup_intensities ci chan wls =
     map_err (\<lambda>wl. case map_of ci wl of
                      None \<Rightarrow> Inl (KeyError (str_int wl))
                    | Some c \<Rightarrow> Inr (chan c)) wls"

definition fit_correction_curves ::
  "env \<Rightarrow> (int \<times> real rgb) list option \<Rightarrow> processor \<Rightarrow> py_error + curves \<times> processor" where
  "fit_correction_curves lib reference_data s =
     (if corrected_intensities s = [] then
        Inl (ValueError ''Must perform shadow correction first'')
      else
        (let wls = sort (map fst (corrected_intensities s)) in
         case lookup_intensities (corrected_intensities s) rgb_r wls of
           Inl e \<Rightarrow> Inl e
         | Inr r_intensities \<Rightarrow>
         (case lookup_intensities (corrected_intensities s) rgb_g wls of
           Inl e \<Rightarrow> Inl e
         | Inr g_intensities \<Rightarrow>
         (case lookup_intensities (corrected_intensities s) rgb_b wls of
           Inl e \<Rightarrow> Inl e
         | Inr b_intensities \<Rightarrow>
         (let ref_table = reference_table reference_data wls in
          case normalize_channel r_intensities of
            Inl e \<Rightarrow> Inl e
          | Inr r_normalized \<Rightarrow>
          (case normalize_channel g_intensities of
            Inl e \<Rightarrow> Inl e
          | Inr g_normalized \<Rightarrow>
          (case normalize_channel b_intensities of
            Inl e \<Rightarrow> Inl e
          | Inr b_normalized \<Rightarrow>
          (case map_err (correction_step ref_table)
                  (zip wls (zip r_normalized (zip g_normalized b_normalized))) of
            Inl e \<Rightarrow> Inl e
          | Inr corrs \<Rightarrow>
          (let corrections =
                 \<lparr>rgb_r = map rgb_r corrs, rgb_g = map rgb_g corrs,
                  rgb_b = map rgb_b corrs\<rparr>;
               r_corrected_final = map2 (*) r_normalized (rgb_r corrections);
               g_corrected_final = map2 (*) g_normalized (rgb_g corrections);
               b_corrected_final = map2 (*) b_normalized (rgb_b corrections)
           in case fit_all lib (map real_of_int wls) corrections of
                Inl e \<Rightarrow> Inl e
              | Inr polys \<Rightarrow>
                  (let cc =
                         \<lparr>polynomial = polys,
                          data_points =
                            \<lparr>rgb_r = rgb_r corrections, rgb_g = rgb_g corrections,
                             rgb_b = rgb_b corrections, wavelengths = wls\<rparr>,
                          raw_normalized =
                            \<lparr>rgb_r = r_normalized, rgb_g = g_normalized,
                             rgb_b = b_normalized, wavelengths = wls\<rparr>,
                          final_corrected =
                            \<lparr>rgb_r = r_corrected_final, rgb_g = g_corrected_final,
                             rgb_b = b_corrected_final, wavelengths = wls\<rparr>,
                          reference_values = ref_table\<rparr>
                   in Inr (cc, s\<lparr>correction_curves := Some cc\<rparr>)))))))))))"

text \<open>
  \<^verbatim>\<open>np.polyval(p, x)\<close> evaluates by Horner's rule, highest coefficient first.
\<close>

definition polyval :: "real list \<Rightarrow> real \<Rightarrow> real" where
  "polyval p x = foldl (\<lambda>y c. y * x + c) 0 p"

definition apply_correction_to_value ::
  "processor \<Rightarrow> real \<Rightarrow> string \<Rightarrow> real \<Rightarrow> py_error + real \<times> processor" where
  "apply_correction_to_value s wl channel v =
     (case correction_curves s of
        None \<Rightarrow> Inl (ValueError ''Correction curves not fitted yet'')
      | Some cc \<Rightarrow>
          (case map_of [(''r'', rgb_r (polynomial cc)), (''g'', rgb_g (polynomial cc)),
                        (''b'', rgb_b (polynomial cc))] channel of
             None \<Rightarrow> Inl (KeyError (py_repr channel))
           | Some poly_coeffs \<Rightarrow> Inr (v * polyval poly_coeffs wl, s)))"

subsection \<open>The pipeline\<close>

text \<open>
  The dictionary \<^verbatim>\<open>process\<close> returns is one of three shapes: a failure
  (\<^verbatim>\<open>success: False\<close> with an error message), an analysis-only result
  (\<^verbatim>\<open>success: True, mode: 'analysis_only'\<close> with the regions, their number and a
  message), or the full calibration record. \<^verbatim>\<open>convert_to_json_serializable\<close> only
  changes NumPy scalars into Python numbers, which this model does not tell apart.
\<close>

record calibration =
  timestamp :: string
  image_info :: "int \<times> int"
  result_color_regions :: "(string \<times> region) list"
  black_corners :: "(string \<times> corner) list"
  baseline :: "npfloat rgb"
  result_raw_intensities :: "(string \<times> int intensity) list"
  result_corrected_intensities :: "(string \<times> real intensity) list"
  result_correction_curves :: "curves option"
  num_colors_detected :: nat
  num_black_corners :: nat
  wavelength_range :: "int \<times> int"

datatype result =
    Failure string
  | AnalysisOnly "(string \<times> region) list" nat string
  | Complete calibration

fun success :: "result \<Rightarrow> bool" where
  "success (Failure msg) = False"
| "success (AnalysisOnly regions n msg) = True"
| "success (Complete rec) = True"

definition key_range :: "int list \<Rightarrow> int \<times> int" where
  "key_range ks =
     (case ks of
        [] \<Rightarrow> (0, 0)
      | k # ks' \<Rightarrow> (fold min ks' k, fold max ks' k))"

definition build_result :: "env \<Rightarrow> processor \<Rightarrow> result" where
  "build_result e s =
     Complete
       \<lparr>timestamp = now e,
        image_info = (width s, height s),
        result_color_regions = color_regions s,
        black_corners = black_regions s,
        baseline =
          \<lparr>rgb_r = fst (calculate_baseline s),
           rgb_g = fst (snd (calculate_baseline s)),
           rgb_b = snd (snd (calculate_baseline s))\<rparr>,
        result_raw_intensities = map (\<lambda>kv. (str_int (fst kv), snd kv)) (raw_intensities s),
        result_corrected_intensities =
          map (\<lambda>kv. (str_int (fst kv), snd kv)) (corrected_intensities s),
        result_correction_curves = correction_curves s,
        num_colors_detected = length (color_regions s),
        num_black_corners = length (black_regions s),
        wavelength_range = key_range (map fst (corrected_intensities s))\<rparr>"

definition no_colors_message :: string where
  "no_colors_message =
     ''No distinct colors detected. This system looks for red, yellow, green, cyan, blue, or magenta colors. Try taking a photo of a colorful object like a phone case, book cover, or printed color chart.''"

text \<open>
  The part of \<^verbatim>\<open>process\<close> after the comment \<^verbatim>\<open>We have 4+ colors, proceed with
  full calibration\<close>.
\<close>

definition full_calibration :: "env \<Rightarrow> processor \<Rightarrow> py_error + result \<times> processor" where
  "full_calibration e s2 =
     (case extract_black_corners s2 of
        Inl err \<Rightarrow> Inl err
      | Inr (ok, s3) \<Rightarrow>
          if \<not> ok then Inr (Failure ''Failed to extract black corner regions'', s3)
          else
            (case perform_shadow_correction s3 of
               Inl err \<Rightarrow> Inl err
             | Inr (corrected, s4) \<Rightarrow>
                 (case fit_correction_curves e None s4 of
                    Inl err \<Rightarrow>
                      Inr (Failure (''Failed to fit correction curves: '' @ str_of_error err),
                           s4)
                  | Inr (cc, s5) \<Rightarrow> Inr (build_result e s5, s5))))"

definition process :: "env \<Rightarrow> bool \<Rightarrow> processor \<Rightarrow> py_error + result \<times> processor" where
  "process e force_analysis s0 =
     (let loaded = load_image (imdecode e) s0; s1 = snd loaded in
      if \<not> fst loaded then Inr (Failure ''Failed to load image'', s1)
      else
        (case extract_color_regions s1 of
           Inl err \<Rightarrow> Inl err
         | Inr (has_enough_colors, s2) \<Rightarrow>
             (let n = length (color_regions s2) in
              if force_analysis \<and> 0 < n then
                Inr (AnalysisOnly (color_regions s2) n
                       (''Analysis mode: detected '' @ str_nat n @ '' color region(s)''),
                     s2)
              else if \<not> has_enough_colors then
                (if 0 < n then
                   Inr (AnalysisOnly (color_regions s2) n
                          (''Detected '' @ str_nat n @
                           '' color region(s) - insufficient for calibration but available for analysis''),
                        s2)
                 else Inr (Failure no_colors_message, s2))
              else full_calibration e s2)))"

subsection \<open>Auxiliary notions for the statements\<close>

text \<open>
  The regions the detector finds in an image, in the order of the colour table: what
  \<^verbatim>\<open>extract_color_regions\<close> leaves in \<^verbatim>\<open>self.color_regions\<close> of a fresh processor.
\<close>

definition detected_regions :: "cv_image \<Rightarrow> (string \<times> region) list" where
  "detected_regions img =
     List.map_filter
       (\<lambda>item. map_option (Pair (fst item)) (detect_region img (fst item) (snd item)))
       COLOR_WAVELENGTHS"

definition clip :: "real \<Rightarrow> real" where
  "clip x = max 0.1 (min 10 x)"

text \<open>
  The correction factors of one channel \<open>chan\<close>, for the wavelengths \<open>wls\<close>, the
  normalised values \<open>ns\<close> and the reference table \<open>tbl\<close>, as the formula gives them.
\<close>

definition factors_of ::
  "(int \<times> real rgb) list \<Rightarrow> (real rgb \<Rightarrow> real) \<Rightarrow> int list \<Rightarrow> real list \<Rightarrow> real list" where
  "factors_of tbl chan wls ns =
     map (\<lambda>p. clip (chan (reference_get tbl (fst p)) / max (snd p) MIN_THRESHOLD))
       (zip wls ns)"

text \<open>The three factors one iteration of the correction loop appends.\<close>

definition step_value ::
  "(int \<times> real rgb) list \<Rightarrow> int \<times> real \<times> real \<times> real \<Rightarrow> real rgb" where
  "step_value tbl item =
     \<lparr>rgb_r = clip (rgb_r (reference_get tbl (fst item)) / max (fst (snd item)) MIN_THRESHOLD),
      rgb_g = clip (rgb_g (reference_get tbl (fst item)) /
                    max (fst (snd (snd item))) MIN_THRESHOLD),
      rgb_b = clip (rgb_b (reference_get tbl (fst item)) /
                    max (snd (snd (snd item))) MIN_THRESHOLD)\<rparr>"

subsection \<open>A concrete chart\<close>

text \<open>
  A synthetic image of 200 by 100 pixels in which the first \<open>k\<close> colours of the table
  each show one patch of area 400, over corners of mean colour (5, 6, 7) in BGR order;
  and a numerical library whose polynomial fit returns a constant polynomial and
  whose spline constructor refuses fewer than four data points.
\<close>

definition example_mask :: "nat \<Rightarrow> (nat \<times> nat \<times> nat) list \<Rightarrow> mask" where
  "example_mask k ranges =
     (if ranges \<in> set (take k (map snd HSV_RANGES)) then
        \<lparr>countNonZero = 500,
         contours =
           [\<lparr>contourArea = 400,
             boundingRect = \<lparr>rect_x = 10, rect_y = 20, rect_width = 21, rect_height = 20\<rparr>,
             mean_bgr = (real (fst (hd ranges)) + 0.5, 50, 200.7 - real (fst (hd ranges)))\<rparr>]\<rparr>
      else \<lparr>countNonZero = 0, contours = []\<rparr>)"

definition example_image :: "nat \<Rightarrow> cv_image" where
  "example_image k =
     \<lparr>shape = (100, 200), hsv_mask = example_mask k,
      slice_mean = (\<lambda>r. (Some 5, Some 6, Some 7))\<rparr>"

definition example_env :: "nat \<Rightarrow> env" where
  "example_env k =
     \<lparr>imdecode = (\<lambda>data. Some (example_image k)),
      polyfit = (\<lambda>xs ys deg. Inr (replicate deg 0 @ [1])),
      UnivariateSpline =
        (\<lambda>xs ys. if length xs < 4 then Inl (LibraryError ''(m>k) failed for hidden m'')
                  else Inr ()),
      now = ''2025-10-24T12:00:00''\<rparr>"

text \<open>
  A processor after shadow correction of four patches (the intensities the chart with
  four colours gives).
\<close>

definition example_state :: processor where
  "example_state =
     (init [])\<lparr>corrected_intensities :=
       [(625, \<lparr>rgb_r = 193, rgb_g = 44, rgb_b = 0, color = ''red''\<rparr>),
        (580, \<lparr>rgb_r = 173, rgb_g = 44, rgb_b = 15, color = ''yellow''\<rparr>),
        (530, \<lparr>rgb_r = 153, rgb_g = 44, rgb_b = 35, color = ''green''\<rparr>),
        (490, \<lparr>rgb_r = 113, rgb_g = 44, rgb_b = 75, color = ''cyan''\<rparr>)]\<rparr>"




text \<open>The polynomial coefficients \<^verbatim>\<open>self.correction_curves['polynomial'][channel]\<close>.\<close>

definition channel_coeffs :: "curves \<Rightarrow> string \<Rightarrow> real list" where
  "channel_coeffs cc channel =
     (if channel = ''r'' then rgb_r (polynomial cc)
      else if channel = ''g'' then rgb_g (polynomial cc)
      else rgb_b (polynomial cc))"


text \<open>The entry \<^verbatim>\<open>perform_shadow_correction\<close> stores for one colour region.\<close>

definition corrected_entry ::
  "npfloat \<times> npfloat \<times> npfloat \<Rightarrow> string \<times> region \<Rightarrow> real intensity" where
  "corrected_entry bl item =
     \<lparr>rgb_r = max0_minus (rgb_r (region_rgb (snd item))) (fst bl),
      rgb_g = max0_minus (rgb_g (region_rgb (snd item))) (fst (snd bl)),
      rgb_b = max0_minus (rgb_b (region_rgb (snd item))) (snd (snd bl)),
      color = fst item\<rparr>"

text \<open>
  Fitted curves with short polynomials, and a processor holding two colour regions
  (one as dark as the corners) and four corner samples of mean colour (7, 6, 5) in
  RGB order.
\<close>

definition example_curves :: curves where
  "example_curves =
     \<lparr>polynomial = \<lparr>rgb_r = [0, 0, 0.01, - 4], rgb_g = [0, 0, 0, 1], rgb_b = [0, 0, 0, 2]\<rparr>,
      data_points = \<lparr>rgb_r = [], rgb_g = [], rgb_b = [], wavelengths = []\<rparr>,
      raw_normalized = \<lparr>rgb_r = [], rgb_g = [], rgb_b = [], wavelengths = []\<rparr>,
      final_corrected = \<lparr>rgb_r = [], rgb_g = [], rgb_b = [], wavelengths = []\<rparr>,
      reference_values = []\<rparr>"

definition example_corner :: corner where
  "example_corner =
     \<lparr>corner_rgb = \<lparr>rgb_r = Some 7, rgb_g = Some 6, rgb_b = Some 5\<rparr>,
      corner_bgr = \<lparr>rgb_r = Some 7, rgb_g = Some 6, rgb_b = Some 5\<rparr>,
      position = \<lparr>rect_x = 0, rect_y = 0, rect_width = 20, rect_height = 10\<rparr>\<rparr>"

definition example_region :: "int \<Rightarrow> int \<Rightarrow> int \<Rightarrow> int \<Rightarrow> region" where
  "example_region wl r g b =
     \<lparr>wavelength = wl,
      region_rgb = \<lparr>rgb_r = r, rgb_g = g, rgb_b = b\<rparr>,
      region_bgr = \<lparr>rgb_r = r, rgb_g = g, rgb_b = b\<rparr>,
      center = (20, 30), area = 400,
      bbox = \<lparr>rect_x = 10, rect_y = 20, rect_width = 21, rect_height = 20\<rparr>\<rparr>"

definition example_state_sampled :: processor where
  "example_state_sampled =
     (init [])\<lparr>color_regions :=
                 [(''red'', example_region 625 200 50 0),
                  (''green'', example_region 530 7 6 5)],
               black_regions :=
                 [(''top_left'', example_corner), (''top_right'', example_corner),
                  (''bottom_left'', example_corner), (''bottom_right'', example_corner)]\<rparr>"

text \<open>
  The processor after \<^verbatim>\<open>load_image\<close> and \<^verbatim>\<open>extract_color_regions\<close> have run on a
  fresh processor whose bytes decode to \<open>img\<close>.
\<close>

definition loaded_state :: "8 word list \<Rightarrow> cv_image \<Rightarrow> processor" where
  "loaded_state data img =
     (init data)\<lparr>loaded_image := Some img, height := fst (shape img),
                  width := snd (shape img), color_regions := detected_regions img\<rparr>"

section \<open>Properties\<close>

subsection \<open>Auxiliary facts about the fitter\<close>

lemma clip_bounds: "0.1 \<le> clip x \<and> clip x \<le> 10"
  by (simp add: clip_def)

lemma floor_positive: "0 < max normalized MIN_THRESHOLD"
  by (simp add: MIN_THRESHOLD_def max_def)

lemma correction_factor_total:
  "correction_factor ref_value normalized =
     Inr (clip (ref_value / max normalized MIN_THRESHOLD))"
  using floor_positive [of normalized]
  by (simp add: correction_factor_def truediv_def clip_def)

lemma correction_step_total: "correction_step rd item = Inr (step_value rd item)"
  by (simp add: correction_step_def step_value_def correction_factor_total Let_def)

lemma map_err_total:
  "(\<And>x. x \<in> set xs \<Longrightarrow> f x = Inr (g x)) \<Longrightarrow> map_err f xs = Inr (map g xs)"
  by (induction xs) simp_all

lemma map_err_length: "map_err f xs = Inr ys \<Longrightarrow> length ys = length xs"
  by (induction xs arbitrary: ys) (auto split: sum.splits)

lemma lookup_intensities_length:
  "lookup_intensities ci chan wls = Inr xs \<Longrightarrow> length xs = length wls"
  by (simp add: lookup_intensities_def map_err_length)

lemma normalize_channel_length: "normalize_channel xs = Inr ys \<Longrightarrow> length ys = length xs"
  by (auto simp: normalize_channel_def Let_def map_err_length split: sum.splits)

lemma correction_steps:
  "map_err (correction_step tbl) items = Inr (map (step_value tbl) items)"
  by (rule map_err_total) (rule correction_step_total)

lemma factors_r:
  assumes "length rn = length wls" "length gn = length wls" "length bn = length wls"
  shows "map rgb_r (map (step_value tbl) (zip wls (zip rn (zip gn bn)))) =
         factors_of tbl rgb_r wls rn"
  unfolding factors_of_def step_value_def using assms by (intro nth_equalityI) simp_all

lemma factors_g:
  assumes "length rn = length wls" "length gn = length wls" "length bn = length wls"
  shows "map rgb_g (map (step_value tbl) (zip wls (zip rn (zip gn bn)))) =
         factors_of tbl rgb_g wls gn"
  unfolding factors_of_def step_value_def using assms by (intro nth_equalityI) simp_all

lemma factors_b:
  assumes "length rn = length wls" "length gn = length wls" "length bn = length wls"
  shows "map rgb_b (map (step_value tbl) (zip wls (zip rn (zip gn bn)))) =
         factors_of tbl rgb_b wls bn"
  unfolding factors_of_def step_value_def using assms by (intro nth_equalityI) simp_all

text \<open>What a successful call of the fitter has stored.\<close>

lemma fit_correction_curves_InrD:
  assumes "fit_correction_curves lib rd s = Inr (cc, s')"
  shows "corrected_intensities s \<noteq> []
    \<and> wavelengths (data_points cc) = sort (map fst (corrected_intensities s))
    \<and> reference_values cc = reference_table rd (wavelengths (data_points cc))
    \<and> length (rgb_r (raw_normalized cc)) = length (wavelengths (data_points cc))
    \<and> length (rgb_g (raw_normalized cc)) = length (wavelengths (data_points cc))
    \<and> length (rgb_b (raw_normalized cc)) = length (wavelengths (data_points cc))
    \<and> rgb_r (data_points cc) =
        factors_of (reference_values cc) rgb_r (wavelengths (data_points cc))
          (rgb_r (raw_normalized cc))
    \<and> rgb_g (data_points cc) =
        factors_of (reference_values cc) rgb_g (wavelengths (data_points cc))
          (rgb_g (raw_normalized cc))
    \<and> rgb_b (data_points cc) =
        factors_of (reference_values cc) rgb_b (wavelengths (data_points cc))
          (rgb_b (raw_normalized cc))
    \<and> s' = s\<lparr>correction_curves := Some cc\<rparr>
    \<and> (\<exists>c. fit_all lib (map real_of_int (wavelengths (data_points cc))) c =
              Inr (polynomial cc))"
proof -
  let ?ci = "corrected_intensities s"
  let ?wls = "sort (map fst ?ci)"
  let ?tbl = "reference_table rd ?wls"
  note defs = fit_correction_curves_def Let_def
  from assms have ne: "?ci \<noteq> []"
    by (auto simp: fit_correction_curves_def split: if_splits)
  obtain ri where ri: "lookup_intensities ?ci rgb_r ?wls = Inr ri"
    using assms ne by (cases "lookup_intensities ?ci rgb_r ?wls") (simp_all add: defs)
  obtain gi where gi: "lookup_intensities ?ci rgb_g ?wls = Inr gi"
    using assms ne ri by (cases "lookup_intensities ?ci rgb_g ?wls") (simp_all add: defs)
  obtain bi where bi: "lookup_intensities ?ci rgb_b ?wls = Inr bi"
    using assms ne ri gi by (cases "lookup_intensities ?ci rgb_b ?wls") (simp_all add: defs)
  obtain rn where rn: "normalize_channel ri = Inr rn"
    using assms ne ri gi bi by (cases "normalize_channel ri") (simp_all add: defs)
  obtain gn where gn: "normalize_channel gi = Inr gn"
    using assms ne ri gi bi rn by (cases "normalize_channel gi") (simp_all add: defs)
  obtain bn where bn: "normalize_channel bi = Inr bn"
    using assms ne ri gi bi rn gn by (cases "normalize_channel bi") (simp_all add: defs)
  let ?corrs = "map (step_value ?tbl) (zip ?wls (zip rn (zip gn bn)))"
  let ?corrections =
    "\<lparr>rgb_r = map rgb_r ?corrs, rgb_g = map rgb_g ?corrs, rgb_b = map rgb_b ?corrs\<rparr>"
  obtain polys where polys: "fit_all lib (map real_of_int ?wls) ?corrections = Inr polys"
    using assms ne ri gi bi rn gn bn
    by (cases "fit_all lib (map real_of_int ?wls) ?corrections")
       (simp_all add: defs correction_steps del: map_map)
  have cc: "cc = \<lparr>polynomial = polys,
       data_points =
         \<lparr>rgb_r = map rgb_r ?corrs, rgb_g = map rgb_g ?corrs,
          rgb_b = map rgb_b ?corrs, wavelengths = ?wls\<rparr>,
       raw_normalized = \<lparr>rgb_r = rn, rgb_g = gn, rgb_b = bn, wavelengths = ?wls\<rparr>,
       final_corrected =
         \<lparr>rgb_r = map2 (*) rn (map rgb_r ?corrs),
          rgb_g = map2 (*) gn (map rgb_g ?corrs),
          rgb_b = map2 (*) bn (map rgb_b ?corrs),
          wavelengths = ?wls\<rparr>,
       reference_values = ?tbl\<rparr>"
    and s': "s' = s\<lparr>correction_curves := Some cc\<rparr>"
    using assms ne ri gi bi rn gn bn polys
    by (auto simp add: defs correction_steps simp del: map_map)
  have lens: "length rn = length ?wls" "length gn = length ?wls" "length bn = length ?wls"
    using ri gi bi rn gn bn
    by (simp_all add: lookup_intensities_length normalize_channel_length)
  have dp: "wavelengths (data_points cc) = ?wls"
      "rgb_r (data_points cc) = map rgb_r ?corrs"
      "rgb_g (data_points cc) = map rgb_g ?corrs"
      "rgb_b (data_points cc) = map rgb_b ?corrs"
      "rgb_r (raw_normalized cc) = rn" "rgb_g (raw_normalized cc) = gn"
      "rgb_b (raw_normalized cc) = bn" "reference_values cc = ?tbl"
      "polynomial cc = polys"
    by (simp_all add: cc del: map_map)
  have "\<exists>c. fit_all lib (map real_of_int ?wls) c = Inr polys"
    using polys by blast
  then show ?thesis
    unfolding dp using ne lens s' by (simp add: factors_r factors_g factors_b del: map_map)
qed

lemma factors_of_nth:
  "length ns = length wls \<Longrightarrow> i < length wls \<Longrightarrow>
   factors_of tbl chan wls ns ! i =
     clip (chan (reference_get tbl (wls ! i)) / max (ns ! i) MIN_THRESHOLD)"
  by (simp add: factors_of_def)

lemma factors_of_range: "c \<in> set (factors_of tbl chan wls ns) \<Longrightarrow> 0.1 \<le> c \<and> c \<le> 10"
  using clip_bounds by (auto simp: factors_of_def)

lemma example_fit_ok:
  "(case fit_correction_curves (example_env 4) None example_state of
      Inr p \<Rightarrow> True | Inl e \<Rightarrow> False)"
  by code_simp

lemma example_state_keys:
  "sort (map fst (corrected_intensities example_state)) = [490, 530, 580, 625]"
  by (simp add: example_state_def init_def)

subsection \<open>Correction factors\<close>

text \<open>
  Claim C2. A correction factor is \<open>reference / max(normalized, 0.01)\<close> clipped to the
  closed interval from 0.1 to 10, where \<open>clip x = max 0.1 (min 10 x)\<close>: the divisor is
  positive, so the division never raises; the clipped value lies in the interval for
  every input; a normalized value of 0 with reference \<open>r\<close> gives \<open>clip (r / 0.01)\<close>;
  and every factor a successful call of \<^verbatim>\<open>fit_correction_curves\<close> stores under
  \<^verbatim>\<open>data_points\<close> is this value for its wavelength and channel, hence in the interval.
\<close>

theorem correction_factor_clipped:
  "correction_factor r n = Inr (clip (r / max n 0.01))
   \<and> 0 < max n 0.01
   \<and> 0.1 \<le> clip x \<and> clip x \<le> 10
   \<and> correction_factor r 0 = Inr (clip (r / 0.01))
   \<and> (fit_correction_curves lib rd s = Inr (cc, s') \<longrightarrow>
        (\<forall>c \<in> set (rgb_r (data_points cc)) \<union> set (rgb_g (data_points cc))
               \<union> set (rgb_b (data_points cc)). 0.1 \<le> c \<and> c \<le> 10)
        \<and> (\<forall>i < length (wavelengths (data_points cc)).
             rgb_r (data_points cc) ! i =
               clip (rgb_r (reference_get (reference_values cc) (wavelengths (data_points cc) ! i))
                     / max (rgb_r (raw_normalized cc) ! i) 0.01)
           \<and> rgb_g (data_points cc) ! i =
               clip (rgb_g (reference_get (reference_values cc) (wavelengths (data_points cc) ! i))
                     / max (rgb_g (raw_normalized cc) ! i) 0.01)
           \<and> rgb_b (data_points cc) ! i =
               clip (rgb_b (reference_get (reference_values cc) (wavelengths (data_points cc) ! i))
                     / max (rgb_b (raw_normalized cc) ! i) 0.01)))"
proof -
  have a: "correction_factor r n = Inr (clip (r / max n 0.01))" for r n
    using correction_factor_total [of r n] by (simp add: MIN_THRESHOLD_def)
  have b: "0 < max n (0.01::real)"
    using floor_positive [of n] by (simp add: MIN_THRESHOLD_def)
  have c: "correction_factor r 0 = Inr (clip (r / 0.01))"
    using a [of r 0] by simp
  have d: "(\<forall>c \<in> set (rgb_r (data_points cc)) \<union> set (rgb_g (data_points cc))
               \<union> set (rgb_b (data_points cc)). 0.1 \<le> c \<and> c \<le> 10)
        \<and> (\<forall>i < length (wavelengths (data_points cc)).
             rgb_r (data_points cc) ! i =
               clip (rgb_r (reference_get (reference_values cc) (wavelengths (data_points cc) ! i))
                     / max (rgb_r (raw_normalized cc) ! i) 0.01)
           \<and> rgb_g (data_points cc) ! i =
               clip (rgb_g (reference_get (reference_values cc) (wavelengths (data_points cc) ! i))
                     / max (rgb_g (raw_normalized cc) ! i) 0.01)
           \<and> rgb_b (data_points cc) ! i =
               clip (rgb_b (reference_get (reference_values cc) (wavelengths (data_points cc) ! i))
                     / max (rgb_b (raw_normalized cc) ! i) 0.01))"
    if run: "fit_correction_curves lib rd s = Inr (cc, s')"
  proof -
    note D = fit_correction_curves_InrD [OF run]
    have in_range: "\<forall>c \<in> set (rgb_r (data_points cc)) \<union> set (rgb_g (data_points cc))
               \<union> set (rgb_b (data_points cc)). 0.1 \<le> c \<and> c \<le> 10"
      using D factors_of_range by (metis Un_iff)
    show ?thesis
      using D in_range by (simp add: factors_of_nth MIN_THRESHOLD_def)
  qed
  show ?thesis
    using a b c d clip_bounds by blast
qed

theorem correction_factor_clipped_witness:
  "\<exists>cc s'. fit_correction_curves (example_env 4) None example_state = Inr (cc, s')
     \<and> length (wavelengths (data_points cc)) = 4
     \<and> rgb_b (data_points cc) ! 3 =
         clip (rgb_b (reference_get (reference_values cc) (wavelengths (data_points cc) ! 3))
               / max (rgb_b (raw_normalized cc) ! 3) 0.01)
     \<and> 0.1 \<le> rgb_b (data_points cc) ! 3 \<and> rgb_b (data_points cc) ! 3 \<le> 10
     \<and> correction_factor 1 0 = Inr 10"
proof -
  obtain cc s' where
    run: "fit_correction_curves (example_env 4) None example_state = Inr (cc, s')"
    using example_fit_ok
    by (cases "fit_correction_curves (example_env 4) None example_state") auto
  have len: "length (wavelengths (data_points cc)) = 4"
    using fit_correction_curves_InrD [OF run] by (simp add: example_state_keys)
  have len_b: "length (rgb_b (data_points cc)) = 4"
    using fit_correction_curves_InrD [OF run] len by (simp add: factors_of_def)
  note T = correction_factor_clipped [where r = 1 and n = 0 and lib = "example_env 4"
      and rd = None and s = example_state and cc = cc and s' = s']
  have nth: "rgb_b (data_points cc) ! 3 \<in> set (rgb_b (data_points cc))"
    using len_b by simp
  have "correction_factor 1 0 = Inr 10"
    using T by (simp add: clip_def)
  then show ?thesis
    using run len T nth by auto
qed

subsection \<open>The built-in reference table\<close>

lemma map_of_fold_update:
  "map_of (fold (\<lambda>wl rd. AList.update wl (f wl) rd) wls acc) k =
     (if k \<in> set wls then Some (f k) else map_of acc k)"
  by (induction wls arbitrary: acc) (simp_all add: update_conv')

lemma reference_table_builtin:
  "wl \<in> set wls \<Longrightarrow> map_of (reference_table None wls) wl = Some (builtin_reference wl)"
  by (simp add: reference_table_def map_of_fold_update)

text \<open>
  Claim C4. When \<^verbatim>\<open>fit_correction_curves\<close> is called without reference data, the
  reference stored for each fitted wavelength is a function of that wavelength alone
  (\<open>builtin_reference\<close>), whose red value is 1.0 from 580 up, 0.3 on [530, 580), 0.1 on
  [490, 530) and 0.2 below 490, and whose green value is 1.0 exactly when the
  wavelength equals 530.
\<close>

theorem builtin_reference_steps:
  assumes "fit_correction_curves lib None s = Inr (cc, s')"
      and "wl \<in> set (wavelengths (data_points cc))"
  shows "map_of (reference_values cc) wl = Some (builtin_reference wl)
       \<and> (580 \<le> wl \<longrightarrow> rgb_r (builtin_reference wl) = 1)
       \<and> (530 \<le> wl \<and> wl < 580 \<longrightarrow> rgb_r (builtin_reference wl) = 0.3)
       \<and> (490 \<le> wl \<and> wl < 530 \<longrightarrow> rgb_r (builtin_reference wl) = 0.1)
       \<and> (wl < 490 \<longrightarrow> rgb_r (builtin_reference wl) = 0.2)
       \<and> (rgb_g (builtin_reference wl) = 1 \<longleftrightarrow> wl = 530)"
proof -
  have "map_of (reference_values cc) wl = Some (builtin_reference wl)"
    using fit_correction_curves_InrD [OF assms(1)] assms(2)
    by (simp add: reference_table_builtin)
  moreover have "rgb_g (builtin_reference wl) = 1 \<longleftrightarrow> wl = 530"
    by (simp add: builtin_reference_def Let_def)
  ultimately show ?thesis
    by (simp add: builtin_reference_def Let_def)
qed


theorem builtin_reference_steps_witness:
  "\<exists>cc s'. fit_correction_curves (example_env 4) None example_state = Inr (cc, s')
     \<and> 530 \<in> set (wavelengths (data_points cc))
     \<and> map_of (reference_values cc) 530 = Some (builtin_reference 530)
     \<and> rgb_r (builtin_reference 530) = 0.3 \<and> rgb_g (builtin_reference 530) = 1"
proof -
  obtain cc s' where
    run: "fit_correction_curves (example_env 4) None example_state = Inr (cc, s')"
    using example_fit_ok
    by (cases "fit_correction_curves (example_env 4) None example_state") auto
  have mem: "530 \<in> set (wavelengths (data_points cc))"
    using fit_correction_curves_InrD [OF run] by (simp add: example_state_keys)
  show ?thesis
    using run mem builtin_reference_steps [OF run mem] by simp
qed

subsection \<open>Reference data with missing wavelengths\<close>

lemma reference_table_supplied: "rd \<noteq> [] \<Longrightarrow> reference_table (Some rd) wls = rd"
  by (cases rd) (simp_all add: reference_table_def)

text \<open>
  An empty dictionary passed as reference data has no entry for 490 nm, yet the factor
  stored for the red channel at 490 nm is computed from the built-in reference 0.1, not
  from 1.0: the test \<^verbatim>\<open>if reference_data:\<close> treats the empty dictionary as absent.
\<close>

theorem missing_reference_empty_counterexample:
  "map_sum id (\<lambda>p. (wavelengths (data_points (fst p)) ! 0, rgb_r (raw_normalized (fst p)) ! 0,
                    rgb_r (data_points (fst p)) ! 0, map_of (reference_values (fst p)) 490))
     (fit_correction_curves (example_env 4) (Some []) example_state) =
     Inr (490, 113 / 193, 193 / 1130, Some (builtin_reference 490))
   \<and> map_of ([] :: (int \<times> real rgb) list) 490 = None
   \<and> clip (1 / max (113 / 193) 0.01) = 193 / 113
   \<and> (193 / 1130 :: real) \<noteq> 193 / 113"
  by code_simp

text \<open>
  Claim C10, amended. When non-empty reference data is passed to
  \<^verbatim>\<open>fit_correction_curves\<close> and has no entry for a fitted wavelength, the call that
  succeeds has used a reference of 1.0 for every channel at that wavelength, so the
  stored factor is \<open>clip (1.0 / max(normalized, 0.01))\<close>; the supplied data is kept as
  the reference table, the built-in table is not consulted and no error is raised for
  the missing key. Empty reference data is treated like no reference data.
\<close>

theorem missing_reference_defaults_to_one:
  assumes "fit_correction_curves lib (Some rd) s = Inr (cc, s')"
      and "rd \<noteq> []" and "map_of rd wl = None"
      and "i < length (wavelengths (data_points cc))"
      and "wavelengths (data_points cc) ! i = wl"
  shows "reference_values cc = rd
       \<and> reference_get (reference_values cc) wl = \<lparr>rgb_r = 1, rgb_g = 1, rgb_b = 1\<rparr>
       \<and> rgb_r (data_points cc) ! i = clip (1 / max (rgb_r (raw_normalized cc) ! i) 0.01)
       \<and> rgb_g (data_points cc) ! i = clip (1 / max (rgb_g (raw_normalized cc) ! i) 0.01)
       \<and> rgb_b (data_points cc) ! i = clip (1 / max (rgb_b (raw_normalized cc) ! i) 0.01)
       \<and> reference_table (Some []) (wavelengths (data_points cc)) =
           reference_table None (wavelengths (data_points cc))"
proof -
  note D = fit_correction_curves_InrD [OF assms(1)]
  have tbl: "reference_values cc = rd"
    using D assms(2) by (simp add: reference_table_supplied)
  have get: "reference_get rd wl = \<lparr>rgb_r = 1, rgb_g = 1, rgb_b = 1\<rparr>"
    using assms(3) by (simp add: reference_get_def)
  have "reference_table (Some []) (wavelengths (data_points cc)) =
           reference_table None (wavelengths (data_points cc))"
    by (simp add: reference_table_def)
  then show ?thesis
    using D assms(4,5) tbl get by (simp add: factors_of_nth MIN_THRESHOLD_def)
qed

lemma example_fit_supplied_ok:
  "(case fit_correction_curves (example_env 4)
           (Some [(625, \<lparr>rgb_r = 0.9, rgb_g = 0.2, rgb_b = 0.1\<rparr>)]) example_state of
      Inr p \<Rightarrow> True | Inl e \<Rightarrow> False)"
  by code_simp

theorem missing_reference_defaults_to_one_witness:
  "\<exists>cc s'. fit_correction_curves (example_env 4)
             (Some [(625, \<lparr>rgb_r = 0.9, rgb_g = 0.2, rgb_b = 0.1\<rparr>)]) example_state = Inr (cc, s')
     \<and> map_of [(625, \<lparr>rgb_r = 0.9, rgb_g = 0.2, rgb_b = (0.1 :: real)\<rparr>)] (490 :: int) = None
     \<and> wavelengths (data_points cc) ! 0 = 490
     \<and> rgb_r (data_points cc) ! 0 = clip (1 / max (rgb_r (raw_normalized cc) ! 0) 0.01)"
proof -
  let ?rd = "[(625 :: int, \<lparr>rgb_r = 0.9 :: real, rgb_g = 0.2, rgb_b = 0.1\<rparr>)]"
  obtain cc s' where
    run: "fit_correction_curves (example_env 4) (Some ?rd) example_state = Inr (cc, s')"
    using example_fit_supplied_ok
    by (cases "fit_correction_curves (example_env 4) (Some ?rd) example_state") auto
  have wls: "wavelengths (data_points cc) = [490, 530, 580, 625]"
    using fit_correction_curves_InrD [OF run] by (simp add: example_state_keys)
  have "rgb_r (data_points cc) ! 0 = clip (1 / max (rgb_r (raw_normalized cc) ! 0) 0.01)"
    using missing_reference_defaults_to_one [OF run, of 490 0] wls by simp
  then show ?thesis
    using run wls by simp
qed

subsection \<open>Too few wavelengths\<close>















subsection \<open>Applying a fitted curve\<close>

lemma polyval_cubic: "polyval [c3, c2, c1, c0] x = c3 * x ^ 3 + c2 * x ^ 2 + c1 * x + c0"
  by (simp add: polyval_def power3_eq_cube power2_eq_square algebra_simps)

text \<open>
  Claim C8. For a channel among \<^verbatim>\<open>'r'\<close>, \<^verbatim>\<open>'g'\<close>, \<^verbatim>\<open>'b'\<close> (the values the
  docstring gives for \<^verbatim>\<open>channel\<close>), \<^verbatim>\<open>apply_correction_to_value\<close> raises if and only
  if no curves have been fitted, and then raises the \<^verbatim>\<open>ValueError\<close>; once curves
  exist it returns the value times the channel's polynomial evaluated at the
  wavelength, for every wavelength and value, and leaves the processor as it was.
  The polynomial of a degree-3 fit \<open>[c3, c2, c1, c0]\<close> is evaluated as
  \<open>c3 x^3 + c2 x^2 + c1 x + c0\<close>.
\<close>

theorem apply_correction_spec:
  assumes "channel \<in> {''r'', ''g'', ''b''}"
  shows "((\<exists>err. apply_correction_to_value s wl channel v = Inl err) \<longleftrightarrow>
            correction_curves s = None)
       \<and> (correction_curves s = None \<longrightarrow>
            apply_correction_to_value s wl channel v =
              Inl (ValueError ''Correction curves not fitted yet''))
       \<and> (\<forall>cc. correction_curves s = Some cc \<longrightarrow>
            apply_correction_to_value s wl channel v =
              Inr (v * polyval (channel_coeffs cc channel) wl, s))
       \<and> polyval [c3, c2, c1, c0] wl = c3 * wl ^ 3 + c2 * wl ^ 2 + c1 * wl + c0"
proof (cases "correction_curves s")
  case None
  then show ?thesis
    by (simp add: apply_correction_to_value_def polyval_cubic)
next
  case (Some cc)
  then show ?thesis
    using assms by (auto simp: apply_correction_to_value_def channel_coeffs_def polyval_cubic)
qed

theorem apply_correction_spec_witness:
  "apply_correction_to_value (init []) 500 ''r'' 2 =
     Inl (ValueError ''Correction curves not fitted yet'')
   \<and> apply_correction_to_value ((init [])\<lparr>correction_curves := Some example_curves\<rparr>) 500 ''r'' 2 =
     Inr (2, (init [])\<lparr>correction_curves := Some example_curves\<rparr>)"
proof -
  have ch: "''r'' \<in> {''r'', ''g'', ''b''}" by simp
  have p: "polyval (channel_coeffs example_curves ''r'') 500 = 1"
    using apply_correction_spec [OF ch, where ?c3.0 = 0 and ?c2.0 = 0 and ?c1.0 = "0.01"
        and ?c0.0 = "- 4" and wl = 500]
    by (simp add: channel_coeffs_def example_curves_def)
  show ?thesis
    using apply_correction_spec [OF ch, of "init []" 500 2]
      apply_correction_spec [OF ch, of "(init [])\<lparr>correction_curves := Some example_curves\<rparr>" 500 2]
      p
    by (simp add: init_def)
qed

subsection \<open>Shadow correction\<close>

lemma shadow_step_corrected:
  "corrected_intensities (shadow_step bl item s) =
     AList.update (wavelength (snd item)) (corrected_entry bl item) (corrected_intensities s)"
  by (simp add: shadow_step_def corrected_entry_def Let_def)

lemma fold_shadow_corrected:
  "corrected_intensities (fold (shadow_step bl) regs s) =
     fold (\<lambda>item. AList.update (wavelength (snd item)) (corrected_entry bl item)) regs
       (corrected_intensities s)"
  by (induction regs arbitrary: s) (simp_all add: shadow_step_corrected)

lemma map_of_fold_update_other:
  "k \<notin> kf ` set items \<Longrightarrow>
   map_of (fold (\<lambda>item. AList.update (kf item) (vf item)) items al) k = map_of al k"
  by (induction items arbitrary: al) (simp_all add: update_conv')

lemma map_of_fold_update_distinct:
  "distinct (map kf items) \<Longrightarrow> item \<in> set items \<Longrightarrow>
   map_of (fold (\<lambda>item. AList.update (kf item) (vf item)) items al) (kf item) = Some (vf item)"
proof (induction items arbitrary: al)
  case Nil
  then show ?case by simp
next
  case (Cons a items)
  show ?case
  proof (cases "item = a")
    case True
    with Cons.prems have "kf a \<notin> kf ` set items" by simp
    then show ?thesis
      using True by (simp add: map_of_fold_update_other update_conv')
  next
    case False
    with Cons show ?thesis by simp
  qed
qed

lemma np_mean_four: "np_mean [Some a, Some b, Some c, Some d] = Some ((a + b + c + d) / 4)"
  by (simp add: np_mean_def)

lemma max0_minus_Some: "max0_minus v (Some bl) = max 0 (real_of_int v - bl)"
  by (simp add: max0_minus_def max_def)

lemma max0_minus_nonneg: "0 \<le> max0_minus v bl"
  by (cases bl) (simp_all add: max0_minus_def)

text \<open>
  Claim C3. With four corner samples of finite mean colour, the baseline is the
  arithmetic mean of the four samples per channel, and for every colour region (the
  regions having distinct wavelengths, as the colour table gives them) and every
  channel the corrected intensity stored under the region's wavelength is
  \<open>max 0 (raw - baseline)\<close>; hence it is nonnegative, and it is exactly zero when the
  raw value equals the baseline.
\<close>

theorem shadow_correction_spec:
  assumes run: "perform_shadow_correction s = Inr (ci, s')"
      and corners: "map (corner_rgb \<circ> snd) (black_regions s) =
             [\<lparr>rgb_r = Some r1, rgb_g = Some g1, rgb_b = Some b1\<rparr>,
              \<lparr>rgb_r = Some r2, rgb_g = Some g2, rgb_b = Some b2\<rparr>,
              \<lparr>rgb_r = Some r3, rgb_g = Some g3, rgb_b = Some b3\<rparr>,
              \<lparr>rgb_r = Some r4, rgb_g = Some g4, rgb_b = Some b4\<rparr>]"
      and d: "distinct (map (wavelength \<circ> snd) (color_regions s))"
      and mem: "(name, reg) \<in> set (color_regions s)"
  shows "calculate_baseline s =
           (Some ((r1 + r2 + r3 + r4) / 4), Some ((g1 + g2 + g3 + g4) / 4),
            Some ((b1 + b2 + b3 + b4) / 4))
       \<and> (\<exists>c. map_of ci (wavelength reg) = Some c \<and> color c = name
            \<and> rgb_r c = max 0 (real_of_int (rgb_r (region_rgb reg)) - (r1 + r2 + r3 + r4) / 4)
            \<and> rgb_g c = max 0 (real_of_int (rgb_g (region_rgb reg)) - (g1 + g2 + g3 + g4) / 4)
            \<and> rgb_b c = max 0 (real_of_int (rgb_b (region_rgb reg)) - (b1 + b2 + b3 + b4) / 4)
            \<and> 0 \<le> rgb_r c \<and> 0 \<le> rgb_g c \<and> 0 \<le> rgb_b c
            \<and> (real_of_int (rgb_r (region_rgb reg)) = (r1 + r2 + r3 + r4) / 4 \<longrightarrow> rgb_r c = 0)
            \<and> (real_of_int (rgb_g (region_rgb reg)) = (g1 + g2 + g3 + g4) / 4 \<longrightarrow> rgb_g c = 0)
            \<and> (real_of_int (rgb_b (region_rgb reg)) = (b1 + b2 + b3 + b4) / 4 \<longrightarrow> rgb_b c = 0))"
proof -
  let ?bl = "calculate_baseline s"
  have vals: "map (\<lambda>c. rgb_r (corner_rgb c)) (map snd (black_regions s)) = [Some r1, Some r2, Some r3, Some r4]"
    "map (\<lambda>c. rgb_g (corner_rgb c)) (map snd (black_regions s)) = [Some g1, Some g2, Some g3, Some g4]"
    "map (\<lambda>c. rgb_b (corner_rgb c)) (map snd (black_regions s)) = [Some b1, Some b2, Some b3, Some b4]"
    using arg_cong [OF corners, of "map rgb_r"] arg_cong [OF corners, of "map rgb_g"]
      arg_cong [OF corners, of "map rgb_b"]
    by (simp_all add: comp_def)
  have bl: "?bl = (Some ((r1 + r2 + r3 + r4) / 4), Some ((g1 + g2 + g3 + g4) / 4),
            Some ((b1 + b2 + b3 + b4) / 4))"
    unfolding calculate_baseline_def Let_def vals np_mean_four ..
  have ci: "ci = fold (\<lambda>item. AList.update (wavelength (snd item)) (corrected_entry ?bl item))
                  (color_regions s) (corrected_intensities s)"
    using run by (auto simp: perform_shadow_correction_def Let_def fold_shadow_corrected)
  have d': "distinct (map (\<lambda>item. wavelength (snd item)) (color_regions s))"
    using d by (simp add: comp_def)
  have "map_of ci (wavelength reg) = Some (corrected_entry ?bl (name, reg))"
    unfolding ci
    using map_of_fold_update_distinct [OF d' mem, of "corrected_entry ?bl" "corrected_intensities s"]
    by simp
  then show ?thesis
    unfolding bl by (simp add: corrected_entry_def max0_minus_Some)
qed

lemma example_sampled_run:
  "(case perform_shadow_correction example_state_sampled of Inr p \<Rightarrow> True | Inl e \<Rightarrow> False)"
  by (simp add: perform_shadow_correction_def Let_def)

theorem shadow_correction_spec_witness:
  "\<exists>ci s' c. perform_shadow_correction example_state_sampled = Inr (ci, s')
     \<and> calculate_baseline example_state_sampled = (Some 7, Some 6, Some 5)
     \<and> map_of ci 530 = Some c \<and> color c = ''green''
     \<and> rgb_r c = 0 \<and> rgb_g c = 0 \<and> rgb_b c = 0"
proof -
  obtain ci s' where run: "perform_shadow_correction example_state_sampled = Inr (ci, s')"
    using example_sampled_run by (cases "perform_shadow_correction example_state_sampled") auto
  have corners: "map (corner_rgb \<circ> snd) (black_regions example_state_sampled) =
             [\<lparr>rgb_r = Some 7, rgb_g = Some 6, rgb_b = Some 5\<rparr>,
              \<lparr>rgb_r = Some 7, rgb_g = Some 6, rgb_b = Some 5\<rparr>,
              \<lparr>rgb_r = Some 7, rgb_g = Some 6, rgb_b = Some 5\<rparr>,
              \<lparr>rgb_r = Some 7, rgb_g = Some 6, rgb_b = Some 5\<rparr>]"
    by (simp add: example_state_sampled_def example_corner_def init_def)
  have d: "distinct (map (wavelength \<circ> snd) (color_regions example_state_sampled))"
    by (simp add: example_state_sampled_def example_region_def init_def)
  have mem: "(''green'', example_region 530 7 6 5) \<in> set (color_regions example_state_sampled)"
    by (simp add: example_state_sampled_def init_def)
  show ?thesis
    using run shadow_correction_spec [OF run corners d mem]
    by (auto simp add: example_region_def)
qed

text \<open>
  On a fresh processor, where neither colour regions nor corner samples exist,
  \<^verbatim>\<open>perform_shadow_correction\<close> returns the empty dictionary and raises nothing.
\<close>

theorem shadow_correction_uninitialized_counterexample:
  "color_regions (init []) = [] \<and> black_regions (init []) = []
   \<and> perform_shadow_correction (init []) = Inr ([], init [])"
  by (simp add: perform_shadow_correction_def init_def Let_def)

text \<open>
  Claim C7, amended. \<^verbatim>\<open>perform_shadow_correction\<close> checks no state and returns in
  every state: without colour regions it returns the dictionary of corrected
  intensities as it stands (empty on a fresh processor), without corner samples the
  baseline is NaN. The error for the missing stage is raised by the next stage:
  \<^verbatim>\<open>fit_correction_curves\<close> raises \<^verbatim>\<open>Must perform shadow correction first\<close> when no
  corrected intensity has been stored.
\<close>

theorem shadow_correction_never_fails:
  "(\<exists>ci s'. perform_shadow_correction s = Inr (ci, s'))
   \<and> (color_regions s = [] \<longrightarrow>
        perform_shadow_correction s = Inr (corrected_intensities s, s))
   \<and> (black_regions s = [] \<longrightarrow> calculate_baseline s = (None, None, None))
   \<and> (color_regions s = [] \<longrightarrow> corrected_intensities s = [] \<longrightarrow>
        fit_correction_curves lib rd s =
          Inl (ValueError ''Must perform shadow correction first''))"
  by (simp add: perform_shadow_correction_def Let_def fit_correction_curves_def
      calculate_baseline_def np_mean_def)

theorem shadow_correction_never_fails_witness:
  "perform_shadow_correction (init []) = Inr ([], init [])
   \<and> fit_correction_curves (example_env 4) None (init []) =
        Inl (ValueError ''Must perform shadow correction first'')"
  using shadow_correction_never_fails [of "init []" "example_env 4" None]
  by (simp add: init_def)

subsection \<open>The stages of the pipeline on a fresh processor\<close>

lemma update_fresh: "k \<notin> fst ` set al \<Longrightarrow> AList.update k v al = al @ [(k, v)]"
  by (induction al) auto


lemma fold_store_region:
  "distinct (map fst items) \<Longrightarrow> fst ` set items \<inter> fst ` set (color_regions s) = {} \<Longrightarrow>
   fold (store_region img) items s =
     s\<lparr>color_regions := color_regions s @
         List.map_filter
           (\<lambda>item. map_option (Pair (fst item)) (detect_region img (fst item) (snd item)))
           items\<rparr>"
proof (induction items arbitrary: s)
  case Nil
  then show ?case by (simp add: map_filter_simps)
next
  case (Cons a items)
  have fresh: "fst a \<notin> fst ` set (color_regions s)"
    using Cons.prems(2) by auto
  show ?case
  proof (cases "detect_region img (fst a) (snd a)")
    case None
    then have "store_region img a s = s"
      by (simp add: store_region_def)
    then show ?thesis
      using Cons None by (simp add: map_filter_simps)
  next
    case (Some reg)
    let ?s = "s\<lparr>color_regions := color_regions s @ [(fst a, reg)]\<rparr>"
    have step: "store_region img a s = ?s"
      using Some fresh by (simp add: store_region_def update_fresh)
    have "fst ` set items \<inter> fst ` set (color_regions ?s) = {}"
      using Cons.prems by auto
    then show ?thesis
      using Cons.IH [of ?s] Cons.prems(1) Some step by (simp add: map_filter_simps)
  qed
qed

lemma extract_color_regions_fresh:
  assumes "loaded_image s = Some img" and "color_regions s = []"
  shows "extract_color_regions s =
           Inr (4 \<le> length (detected_regions img), s\<lparr>color_regions := detected_regions img\<rparr>)"
proof -
  have d: "distinct (map fst COLOR_WAVELENGTHS)"
    by (simp add: COLOR_WAVELENGTHS_def)
  have "fold (store_region img) COLOR_WAVELENGTHS s = s\<lparr>color_regions := detected_regions img\<rparr>"
    using fold_store_region [OF d, of s img] assms(2) by (simp add: detected_regions_def)
  then show ?thesis
    using assms(1) by (simp add: extract_color_regions_def Let_def)
qed

lemma detect_region_wavelength: "detect_region img name wl = Some reg \<Longrightarrow> wavelength reg = wl"
  by (auto simp: detect_region_def Let_def split: option.splits if_splits list.splits)

lemma detected_wavelengths:
  "map (wavelength \<circ> snd) (detected_regions img) =
     map snd (filter (\<lambda>item. detect_region img (fst item) (snd item) \<noteq> None) COLOR_WAVELENGTHS)"
proof -
  have "map (wavelength \<circ> snd)
          (List.map_filter (\<lambda>item. map_option (Pair (fst item)) (detect_region img (fst item) (snd item))) items) =
        map snd (filter (\<lambda>item. detect_region img (fst item) (snd item) \<noteq> None) items)" for items
    by (induction items) (auto simp: map_filter_simps dest: detect_region_wavelength)
  then show ?thesis by (simp add: detected_regions_def)
qed


lemma detected_length: "length (detected_regions img) \<le> 6"
proof -
  have "length (detected_regions img) = length (map (wavelength \<circ> snd) (detected_regions img))"
    by simp
  also have "\<dots> \<le> length COLOR_WAVELENGTHS"
    unfolding detected_wavelengths by simp
  finally show ?thesis by (simp add: COLOR_WAVELENGTHS_def)
qed










lemma process_loaded:
  assumes "imdecode e data = Some img"
  shows "process e force_analysis (init data) =
     (let n = length (detected_regions img); s2 = loaded_state data img in
      if force_analysis \<and> 0 < n then
        Inr (AnalysisOnly (detected_regions img) n
               (''Analysis mode: detected '' @ str_nat n @ '' color region(s)''), s2)
      else if \<not> 4 \<le> n then
        (if 0 < n then
           Inr (AnalysisOnly (detected_regions img) n
                  (''Detected '' @ str_nat n @
                   '' color region(s) - insufficient for calibration but available for analysis''),
                s2)
         else Inr (Failure no_colors_message, s2))
      else full_calibration e s2)"
proof -
  let ?s1 = "(init data)\<lparr>loaded_image := Some img, height := fst (shape img),
                  width := snd (shape img)\<rparr>"
  have l: "load_image (imdecode e) (init data) = (True, ?s1)"
    using assms by (simp add: load_image_def init_def)
  have "loaded_image ?s1 = Some img" "color_regions ?s1 = []"
    by (simp_all add: init_def)
  then have x: "extract_color_regions ?s1 =
      Inr (4 \<le> length (detected_regions img), ?s1\<lparr>color_regions := detected_regions img\<rparr>)"
    by (rule extract_color_regions_fresh)
  show ?thesis
    unfolding process_def l by (simp add: x Let_def loaded_state_def)
qed

lemma loaded_state_fields:
  "loaded_image (loaded_state data img) = Some img"
  "color_regions (loaded_state data img) = detected_regions img"
  "black_regions (loaded_state data img) = []"
  "raw_intensities (loaded_state data img) = []"
  "corrected_intensities (loaded_state data img) = []"
  "correction_curves (loaded_state data img) = None"
  by (simp_all add: loaded_state_def init_def)

lemma example_decodes: "imdecode (example_env k) data = Some (example_image k)"
  by (simp add: example_env_def)



subsection \<open>The outcome by number of regions\<close>



subsection \<open>Forced analysis\<close>

text \<open>
  With \<^verbatim>\<open>force_analysis = True\<close> and an image in which no colour is detected, the
  result is the failure for no colours, not an analysis-only result: the test is
  \<^verbatim>\<open>force_analysis and len(self.color_regions) > 0\<close>.
\<close>

theorem forced_analysis_counterexample:
  "map_sum id fst (process (example_env 0) True (init [])) = Inr (Failure no_colors_message)
   \<and> map_sum id (success \<circ> fst) (process (example_env 0) True (init [])) = Inr False"
  by code_simp

text \<open>
  Claim C6, amended. When the caller requests analysis-only mode, the image loads and
  at least one colour region is detected, \<^verbatim>\<open>process\<close> returns an analysis-only result
  with the detected regions and their number, also for 4 or more regions; when no
  region is detected it returns the failure for no colours. In both cases no corner
  is sampled, no intensity is stored and no curve is fitted.
\<close>

theorem forced_analysis:
  assumes "imdecode e data = Some img"
  shows "(0 < length (detected_regions img) \<longrightarrow>
           (\<exists>s'. process e True (init data) =
              Inr (AnalysisOnly (detected_regions img) (length (detected_regions img))
                     (''Analysis mode: detected '' @ str_nat (length (detected_regions img)) @
                      '' color region(s)''), s')
            \<and> black_regions s' = [] \<and> raw_intensities s' = []
            \<and> corrected_intensities s' = [] \<and> correction_curves s' = None))
       \<and> (length (detected_regions img) = 0 \<longrightarrow>
           (\<exists>s'. process e True (init data) = Inr (Failure no_colors_message, s')
            \<and> black_regions s' = [] \<and> raw_intensities s' = []
            \<and> corrected_intensities s' = [] \<and> correction_curves s' = None))"
  unfolding process_loaded [OF assms, of True]
  by (simp add: Let_def loaded_state_fields)

lemma example_six: "length (detected_regions (example_image 6)) = 6"
  by code_simp

theorem forced_analysis_witness:
  "\<exists>s'. process (example_env 6) True (init []) =
      Inr (AnalysisOnly (detected_regions (example_image 6)) 6
             ''Analysis mode: detected 6 color region(s)'', s')
    \<and> black_regions s' = [] \<and> corrected_intensities s' = [] \<and> correction_curves s' = None"
  using forced_analysis [OF example_decodes, of 6 "[]"] example_six by auto

end
